theory Spec2Isabelle
  imports Complex_Main
begin

section \<open>Values of the JavaScript runtime\<close>

text \<open>
  The module \<^verbatim>\<open>packages/utils/src/time.ts\<close> reads two clocks, \<^verbatim>\<open>Date.now()\<close> and
  \<^verbatim>\<open>performance.now()\<close>, and does arithmetic on their readings. A JavaScript
  \<^verbatim>\<open>number\<close> is modelled as a real: the arithmetic of the module (one subtraction,
  one addition, one division by 1000) is taken exactly, and \<^verbatim>\<open>NaN\<close> and the
  infinities are not values of the model. A property that is \<^verbatim>\<open>undefined\<close> at run
  time is \<open>None\<close>.

  A clock is a function of the instant at which it is read. The module body is
  evaluated once, at the instant \<open>t0\<close> of module load; an exported function is
  a closure that reads its clock at the instant of the call.
\<close>

type_synonym number = real
type_synonym instant = nat

text \<open>A thrown JavaScript value, and a computation that returns or throws.\<close>

datatype exn = Thrown string

type_synonym 'a result = "exn + 'a"

definition bind_result :: "'a result \<Rightarrow> ('a \<Rightarrow> 'b result) \<Rightarrow> 'b result" where
  "bind_result r k = (case r of Inl e \<Rightarrow> Inl e | Inr v \<Rightarrow> k v)"

text \<open>\<^verbatim>\<open>try { body } catch (_) { handler }\<close>\<close>

definition try_catch :: "'a result \<Rightarrow> (exn \<Rightarrow> 'a result) \<Rightarrow> 'a result" where
  "try_catch body handler = (case body of Inl e \<Rightarrow> handler e | Inr v \<Rightarrow> Inr v)"

text \<open>
  Truthiness of a value of type \<^verbatim>\<open>number | undefined\<close>: \<^verbatim>\<open>undefined\<close> and \<^verbatim>\<open>0\<close>
  are falsy.
\<close>

definition truthy :: "number option \<Rightarrow> bool" where
  "truthy v = (case v of None \<Rightarrow> False | Some x \<Rightarrow> x \<noteq> 0)"

text \<open>\<^verbatim>\<open>v || d\<close> for \<^verbatim>\<open>v: number | undefined\<close> and \<^verbatim>\<open>d: number\<close>.\<close>

definition js_or :: "number option \<Rightarrow> number \<Rightarrow> number" where
  "js_or v d = (case v of None \<Rightarrow> d | Some x \<Rightarrow> if x \<noteq> 0 then x else d)"


section \<open>Interfaces of \<^verbatim>\<open>time.ts\<close>\<close>

text \<open>\<^verbatim>\<open>interface TimestampSource { nowSeconds(): number; }\<close>\<close>

record TimestampSource =
  nowSeconds :: "instant \<Rightarrow> number"

text \<open>\<^verbatim>\<open>interface Performance { now(): number; timeOrigin: number; }\<close>\<close>

record Performance =
  now :: "instant \<Rightarrow> number"
  timeOrigin :: number


section \<open>The environment of the module\<close>

text \<open>
  The global \<^verbatim>\<open>performance\<close> object of a browser as the module inspects it: it
  tests \<^verbatim>\<open>performance.now\<close>, \<^verbatim>\<open>performance.timeOrigin\<close>, \<^verbatim>\<open>performance.timing\<close>
  and \<^verbatim>\<open>performance.timing.navigationStart\<close> before use, so each may be absent.
\<close>

record PerformanceTiming =
  navigationStart :: "number option"

record WindowPerformance =
  perf_now :: "(instant \<Rightarrow> number) option"
  perf_timeOrigin :: "number option"
  timing :: "PerformanceTiming option"

record Window =
  window_performance :: "WindowPerformance option"

text \<open>
  The module \<^verbatim>\<open>perf_hooks\<close> of Node.js, at the type the source casts it to:
  \<^verbatim>\<open>{ performance: Performance }\<close>.
\<close>

record PerfHooks =
  performance :: Performance

text \<open>
  The helpers imported from \<^verbatim>\<open>./misc\<close> and \<^verbatim>\<open>./node\<close> and the clock \<^verbatim>\<open>Date.now\<close>
  are parameters of the model: \<open>isNodeEnv\<close> is what \<^verbatim>\<open>isNodeEnv()\<close> returns,
  \<open>dynamicRequire\<close> maps a module name to what \<^verbatim>\<open>dynamicRequire(module, name)\<close>
  returns or throws, \<open>getGlobalObject\<close> is the global object.
\<close>

record Env =
  isNodeEnv :: bool
  dynamicRequire :: "string \<Rightarrow> PerfHooks result"
  getGlobalObject :: Window
  Date_now :: "instant \<Rightarrow> number"


section \<open>The module\<close>

text \<open>\<^verbatim>\<open>const dateTimestampSource = { nowSeconds: () => Date.now() / 1000 }\<close>\<close>

definition dateTimestampSource :: "Env \<Rightarrow> TimestampSource" where
  "dateTimestampSource env = \<lparr> nowSeconds = (\<lambda>t. Date_now env t / 1000) \<rparr>"

text \<open>
  \<^verbatim>\<open>getBrowserPerformance()\<close>, called at instant \<open>t0\<close>: \<^verbatim>\<open>undefined\<close> when the
  global \<^verbatim>\<open>performance\<close> or its \<^verbatim>\<open>now\<close> is missing, else a wrapper whose
  \<^verbatim>\<open>timeOrigin\<close> is \<^verbatim>\<open>Date.now() - performance.now()\<close>.
\<close>

definition getBrowserPerformance :: "Env \<Rightarrow> instant \<Rightarrow> Performance option" where
  "getBrowserPerformance env t0 =
     (case window_performance (getGlobalObject env) of
        None \<Rightarrow> None
      | Some perf \<Rightarrow>
          (case perf_now perf of
             None \<Rightarrow> None
           | Some native_now \<Rightarrow>
               Some \<lparr> now = (\<lambda>t. native_now t),
                      timeOrigin = Date_now env t0 - native_now t0 \<rparr>))"

text \<open>
  \<^verbatim>\<open>getNodePerformance()\<close>: the \<^verbatim>\<open>performance\<close> of \<^verbatim>\<open>perf_hooks\<close>, and \<^verbatim>\<open>undefined\<close>
  when acquiring it throws.
\<close>

definition getNodePerformance :: "Env \<Rightarrow> Performance option result" where
  "getNodePerformance env =
     try_catch
       (bind_result (dynamicRequire env ''perf_hooks'')
          (\<lambda>perfHooks. Inr (Some (performance perfHooks))))
       (\<lambda>_. Inr None)"

text \<open>\<^verbatim>\<open>const platformPerformance = (() => { ... })()\<close>\<close>

definition platformPerformance :: "Env \<Rightarrow> instant \<Rightarrow> Performance option result" where
  "platformPerformance env t0 =
     (if isNodeEnv env then getNodePerformance env
      else Inr (getBrowserPerformance env t0))"

text \<open>
  \<^verbatim>\<open>let timestampSource = dateTimestampSource\<close>, replaced when
  \<^verbatim>\<open>platformPerformance !== undefined\<close>.
\<close>

definition timestampSource :: "Env \<Rightarrow> Performance option \<Rightarrow> TimestampSource" where
  "timestampSource env pp =
     (case pp of
        None \<Rightarrow> dateTimestampSource env
      | Some p \<Rightarrow> \<lparr> nowSeconds = (\<lambda>t. (timeOrigin p + now p t) / 1000) \<rparr>)"

text \<open>
  The value bound to the export \<^verbatim>\<open>browserPerformanceTimeOrigin\<close>, computed at
  instant \<open>t0\<close>.
\<close>

definition browserPerformanceTimeOrigin_value :: "Env \<Rightarrow> instant \<Rightarrow> number option" where
  "browserPerformanceTimeOrigin_value env t0 =
     (case window_performance (getGlobalObject env) of
        None \<Rightarrow> None
      | Some perf \<Rightarrow>
          if truthy (perf_timeOrigin perf) then perf_timeOrigin perf
          else Some (js_or (case timing perf of
                              None \<Rightarrow> None
                            | Some tm \<Rightarrow> navigationStart tm)
                           (Date_now env t0)))"

text \<open>The exports of the module.\<close>

record Exports =
  dateTimestampInSeconds :: "instant \<Rightarrow> number"
  timestampInSeconds :: "instant \<Rightarrow> number"
  timestampWithMs :: "instant \<Rightarrow> number"
  usingPerformanceAPI :: bool
  browserPerformanceTimeOrigin :: "number option"

text \<open>
  Evaluating the module body at instant \<open>t0\<close>: the exports, or the exception
  that escapes.
\<close>

definition time_module :: "Env \<Rightarrow> instant \<Rightarrow> Exports result" where
  "time_module env t0 =
     bind_result (platformPerformance env t0) (\<lambda>pp.
       Inr \<lparr> dateTimestampInSeconds = nowSeconds (dateTimestampSource env),
             timestampInSeconds = nowSeconds (timestampSource env pp),
             timestampWithMs = nowSeconds (timestampSource env pp),
             usingPerformanceAPI = (pp \<noteq> None),
             browserPerformanceTimeOrigin = browserPerformanceTimeOrigin_value env t0 \<rparr>)"


section \<open>Sample environments\<close>

text \<open>
  A browser whose \<^verbatim>\<open>performance.now()\<close> is mocked to 1000 and whose \<^verbatim>\<open>Date.now()\<close>
  is mocked to 1700000000000; its native \<^verbatim>\<open>timeOrigin\<close> is far in the past.
\<close>

definition mocked_performance :: WindowPerformance where
  "mocked_performance =
     \<lparr> perf_now = Some (\<lambda>_. 1000), perf_timeOrigin = Some 42, timing = None \<rparr>"

definition no_perf_hooks :: "string \<Rightarrow> PerfHooks result" where
  "no_perf_hooks name = Inl (Thrown ''Cannot find module'')"

definition mocked_browser :: Env where
  "mocked_browser =
     \<lparr> isNodeEnv = False, dynamicRequire = no_perf_hooks,
       getGlobalObject = \<lparr> window_performance = Some mocked_performance \<rparr>,
       Date_now = (\<lambda>_. 1700000000000) \<rparr>"


text \<open>A browser with no global \<^verbatim>\<open>performance\<close> at all.\<close>

definition plain_browser :: Env where
  "plain_browser =
     \<lparr> isNodeEnv = False, dynamicRequire = no_perf_hooks,
       getGlobalObject = \<lparr> window_performance = None \<rparr>,
       Date_now = (\<lambda>t. if t = 0 then 2000 else 1000) \<rparr>"

text \<open>
  A browser whose \<^verbatim>\<open>performance\<close> has neither \<^verbatim>\<open>now\<close> nor a usable \<^verbatim>\<open>timeOrigin\<close>,
  only the legacy \<^verbatim>\<open>timing.navigationStart\<close>.
\<close>

definition legacy_browser :: Env where
  "legacy_browser =
     \<lparr> isNodeEnv = False, dynamicRequire = no_perf_hooks,
       getGlobalObject = \<lparr> window_performance =
         Some \<lparr> perf_now = None, perf_timeOrigin = Some 0,
                timing = Some \<lparr> navigationStart = Some 1600000000000 \<rparr> \<rparr> \<rparr>,
       Date_now = (\<lambda>_. 1700000000000) \<rparr>"

text \<open>The same with \<^verbatim>\<open>timeOrigin\<close> undefined and \<^verbatim>\<open>navigationStart\<close> zero.\<close>

definition zero_navigation_browser :: Env where
  "zero_navigation_browser =
     \<lparr> isNodeEnv = False, dynamicRequire = no_perf_hooks,
       getGlobalObject = \<lparr> window_performance =
         Some \<lparr> perf_now = None, perf_timeOrigin = None,
                timing = Some \<lparr> navigationStart = Some 0 \<rparr> \<rparr> \<rparr>,
       Date_now = (\<lambda>_. 1700000000000) \<rparr>"

text \<open>
  An old Node.js: requiring \<^verbatim>\<open>perf_hooks\<close> throws. A global \<^verbatim>\<open>performance\<close> with a
  \<^verbatim>\<open>now\<close> is present all the same.
\<close>

definition old_node :: Env where
  "old_node =
     \<lparr> isNodeEnv = True, dynamicRequire = no_perf_hooks,
       getGlobalObject = \<lparr> window_performance = Some mocked_performance \<rparr>,
       Date_now = (\<lambda>_. 1700000000000) \<rparr>"

text \<open>A Node.js with \<^verbatim>\<open>perf_hooks\<close>: the clock ticks one millisecond per instant.\<close>

definition node_performance :: Performance where
  "node_performance = \<lparr> now = (\<lambda>t. real t), timeOrigin = 1700000000000 \<rparr>"

definition perf_hooks_present :: "string \<Rightarrow> PerfHooks result" where
  "perf_hooks_present name =
     (if name = ''perf_hooks'' then Inr \<lparr> performance = node_performance \<rparr>
      else Inl (Thrown ''Cannot find module''))"

definition new_node :: Env where
  "new_node =
     \<lparr> isNodeEnv = True, dynamicRequire = perf_hooks_present,
       getGlobalObject = \<lparr> window_performance = None \<rparr>,
       Date_now = (\<lambda>_. 1700000000000) \<rparr>"


text \<open>
  A browser whose \<^verbatim>\<open>performance.now()\<close> ticks one millisecond per instant; the
  page was opened five seconds before the module loads.
\<close>

definition ticking_performance :: WindowPerformance where
  "ticking_performance =
     \<lparr> perf_now = Some (\<lambda>t. 5000 + real t), perf_timeOrigin = None, timing = None \<rparr>"

definition ticking_browser :: Env where
  "ticking_browser =
     \<lparr> isNodeEnv = False, dynamicRequire = no_perf_hooks,
       getGlobalObject = \<lparr> window_performance = Some ticking_performance \<rparr>,
       Date_now = (\<lambda>t. 1700000000000 + real t) \<rparr>"


section \<open>Module load\<close>

lemma getNodePerformance_cases:
  "getNodePerformance env =
     (case dynamicRequire env ''perf_hooks'' of
        Inl e \<Rightarrow> Inr None
      | Inr perfHooks \<Rightarrow> Inr (Some (performance perfHooks)))"
  by (simp add: getNodePerformance_def try_catch_def bind_result_def split: sum.split)

lemma platformPerformance_returns: "\<exists>pp. platformPerformance env t0 = Inr pp"
  by (simp add: platformPerformance_def getNodePerformance_cases split: sum.split)

lemma time_module_loaded:
  assumes "platformPerformance env t0 = Inr pp"
  shows "time_module env t0 =
     Inr \<lparr> dateTimestampInSeconds = nowSeconds (dateTimestampSource env),
           timestampInSeconds = nowSeconds (timestampSource env pp),
           timestampWithMs = nowSeconds (timestampSource env pp),
           usingPerformanceAPI = (pp \<noteq> None),
           browserPerformanceTimeOrigin = browserPerformanceTimeOrigin_value env t0 \<rparr>"
  using assms by (simp add: time_module_def bind_result_def)


section \<open>The browser origin\<close>

text \<open>
  C1. In a browser whose global \<^verbatim>\<open>performance\<close> has a \<^verbatim>\<open>now\<close>, the wrapper built at
  module load has the origin \<^verbatim>\<open>Date.now() - performance.now()\<close>, read at load; the
  native \<^verbatim>\<open>timeOrigin\<close> does not enter it. The module loads and its
  \<^verbatim>\<open>timestampInSeconds\<close> is that origin plus \<^verbatim>\<open>performance.now()\<close>, over 1000. With
  \<^verbatim>\<open>performance.now()\<close> = 1000 and \<^verbatim>\<open>Date.now()\<close> = 1700000000000 at load, the origin
  is 1699999999000, and a call of \<^verbatim>\<open>timestampInSeconds\<close> at which
  \<^verbatim>\<open>performance.now()\<close> is still 1000 returns 1700000000.
\<close>

theorem browser_origin_is_wall_clock_minus_now:
  assumes "\<not> isNodeEnv env"
    and "window_performance (getGlobalObject env) = Some perf"
    and "perf_now perf = Some f"
  shows "\<exists>p m. getBrowserPerformance env t0 = Some p
           \<and> platformPerformance env t0 = Inr (Some p)
           \<and> time_module env t0 = Inr m
           \<and> now p = f
           \<and> timeOrigin p = Date_now env t0 - f t0
           \<and> timestampInSeconds m = (\<lambda>t. (Date_now env t0 - f t0 + f t) / 1000)
           \<and> (Date_now env t0 = 1700000000000 \<and> f t0 = 1000 \<longrightarrow>
                timeOrigin p = 1699999999000
                \<and> (\<forall>t. f t = 1000 \<longrightarrow> timestampInSeconds m t = 1700000000))"
proof -
  let ?p = "\<lparr> now = f, timeOrigin = Date_now env t0 - f t0 \<rparr>"
  have gb: "getBrowserPerformance env t0 = Some ?p"
    using assms by (simp add: getBrowserPerformance_def)
  have pp: "platformPerformance env t0 = Inr (Some ?p)"
    using assms(1) gb by (simp add: platformPerformance_def)
  note tm = time_module_loaded [OF pp]
  have ts: "nowSeconds (timestampSource env (Some ?p))
              = (\<lambda>t. (Date_now env t0 - f t0 + f t) / 1000)"
    by (simp add: timestampSource_def)
  show ?thesis
    using gb pp tm ts by simp
qed

theorem browser_origin_is_wall_clock_minus_now_witness:
  "\<exists>p m. getBrowserPerformance mocked_browser 0 = Some p
         \<and> time_module mocked_browser 0 = Inr m
         \<and> timeOrigin p = 1699999999000
         \<and> timestampInSeconds m 1 = 1700000000"
proof -
  have a: "\<not> isNodeEnv mocked_browser"
    by (simp add: mocked_browser_def)
  have b: "window_performance (getGlobalObject mocked_browser) = Some mocked_performance"
    by (simp add: mocked_browser_def)
  have c: "perf_now mocked_performance = Some (\<lambda>_. 1000)"
    by (simp add: mocked_performance_def)
  have d: "Date_now mocked_browser 0 = 1700000000000"
    by (simp add: mocked_browser_def)
  from browser_origin_is_wall_clock_minus_now [OF a b c, of 0] d
  show ?thesis by auto
qed


section \<open>The browser time origin\<close>

lemma browserPerformanceTimeOrigin_exported:
  "\<exists>m. time_module env t0 = Inr m
       \<and> browserPerformanceTimeOrigin m = browserPerformanceTimeOrigin_value env t0"
proof -
  obtain pp where "platformPerformance env t0 = Inr pp"
    using platformPerformance_returns by blast
  from time_module_loaded [OF this] show ?thesis by simp
qed

text \<open>
  C2. The module loads, and its \<^verbatim>\<open>browserPerformanceTimeOrigin\<close> follows the chain:
  \<^verbatim>\<open>undefined\<close> when there is no global \<^verbatim>\<open>performance\<close>; else the native
  \<^verbatim>\<open>timeOrigin\<close> when it is present and not zero; else
  \<^verbatim>\<open>performance.timing.navigationStart\<close> when present and not zero; else, with
  \<^verbatim>\<open>timing\<close> or \<^verbatim>\<open>navigationStart\<close> absent, \<^verbatim>\<open>Date.now()\<close> read at load. With
  \<^verbatim>\<open>timeOrigin\<close> = 0 and \<^verbatim>\<open>navigationStart\<close> = 1600000000000 it is 1600000000000.
\<close>

theorem browserPerformanceTimeOrigin_fallback_chain:
  "\<exists>m. time_module env t0 = Inr m
     \<and> (window_performance (getGlobalObject env) = None \<longrightarrow>
          browserPerformanceTimeOrigin m = None)
     \<and> (\<forall>perf. window_performance (getGlobalObject env) = Some perf \<longrightarrow>
          (\<forall>x. perf_timeOrigin perf = Some x \<and> x \<noteq> 0 \<longrightarrow>
               browserPerformanceTimeOrigin m = Some x)
        \<and> (perf_timeOrigin perf = None \<or> perf_timeOrigin perf = Some 0 \<longrightarrow>
             (\<forall>tm n. timing perf = Some tm \<and> navigationStart tm = Some n \<and> n \<noteq> 0 \<longrightarrow>
                  browserPerformanceTimeOrigin m = Some n)
           \<and> (timing perf = None \<longrightarrow>
                  browserPerformanceTimeOrigin m = Some (Date_now env t0))
           \<and> (\<forall>tm. timing perf = Some tm \<and> navigationStart tm = None \<longrightarrow>
                  browserPerformanceTimeOrigin m = Some (Date_now env t0)))
        \<and> (perf_timeOrigin perf = Some 0
             \<and> (\<exists>tm. timing perf = Some tm \<and> navigationStart tm = Some 1600000000000) \<longrightarrow>
               browserPerformanceTimeOrigin m = Some 1600000000000))"
proof -
  obtain m where m: "time_module env t0 = Inr m"
    and v: "browserPerformanceTimeOrigin m = browserPerformanceTimeOrigin_value env t0"
    using browserPerformanceTimeOrigin_exported by blast
  show ?thesis
    by (rule exI [of _ m])
       (auto simp add: m v browserPerformanceTimeOrigin_value_def truthy_def js_or_def)
qed

theorem browserPerformanceTimeOrigin_fallback_chain_witness:
  "\<exists>m. time_module legacy_browser 0 = Inr m
     \<and> browserPerformanceTimeOrigin m = Some 1600000000000"
proof -
  have "window_performance (getGlobalObject legacy_browser) =
          Some \<lparr> perf_now = None, perf_timeOrigin = Some 0,
                 timing = Some \<lparr> navigationStart = Some 1600000000000 \<rparr> \<rparr>"
    by (simp add: legacy_browser_def)
  with browserPerformanceTimeOrigin_fallback_chain [of legacy_browser 0]
  show ?thesis by auto
qed

text \<open>
  C10. When the global \<^verbatim>\<open>performance\<close> exists, its \<^verbatim>\<open>timeOrigin\<close> is absent or
  zero, and \<^verbatim>\<open>timing\<close> is absent or its \<^verbatim>\<open>navigationStart\<close> is absent or zero, then
  \<^verbatim>\<open>browserPerformanceTimeOrigin\<close> is \<^verbatim>\<open>Date.now()\<close> read at load, neither 0 nor
  \<^verbatim>\<open>undefined\<close>.
\<close>

theorem browserPerformanceTimeOrigin_zero_navigationStart:
  assumes "window_performance (getGlobalObject env) = Some perf"
    and "perf_timeOrigin perf = None \<or> perf_timeOrigin perf = Some 0"
    and "timing perf = None
         \<or> (\<exists>tm. timing perf = Some tm
                \<and> (navigationStart tm = None \<or> navigationStart tm = Some 0))"
  shows "\<exists>m. time_module env t0 = Inr m
           \<and> browserPerformanceTimeOrigin m = Some (Date_now env t0)"
proof -
  obtain m where m: "time_module env t0 = Inr m"
    and v: "browserPerformanceTimeOrigin m = browserPerformanceTimeOrigin_value env t0"
    using browserPerformanceTimeOrigin_exported by blast
  have "browserPerformanceTimeOrigin_value env t0 = Some (Date_now env t0)"
    using assms
    by (auto simp add: browserPerformanceTimeOrigin_value_def truthy_def js_or_def)
  with m v show ?thesis by simp
qed

theorem browserPerformanceTimeOrigin_zero_navigationStart_witness:
  "\<exists>m. time_module zero_navigation_browser 0 = Inr m
     \<and> browserPerformanceTimeOrigin m = Some 1700000000000"
proof -
  let ?perf = "\<lparr> perf_now = None, perf_timeOrigin = None,
                  timing = Some \<lparr> navigationStart = Some 0 \<rparr> \<rparr>"
  have a: "window_performance (getGlobalObject zero_navigation_browser) = Some ?perf"
    by (simp add: zero_navigation_browser_def)
  have b: "perf_timeOrigin ?perf = None \<or> perf_timeOrigin ?perf = Some 0"
    by simp
  have c: "timing ?perf = None
           \<or> (\<exists>tm. timing ?perf = Some tm
                  \<and> (navigationStart tm = None \<or> navigationStart tm = Some 0))"
    by simp
  have d: "Date_now zero_navigation_browser 0 = 1700000000000"
    by (simp add: zero_navigation_browser_def)
  from browserPerformanceTimeOrigin_zero_navigationStart [OF a b c, of 0] d
  show ?thesis by simp
qed


section \<open>Detection\<close>

text \<open>
  C3. Acquiring the clock of Node.js never throws: \<^verbatim>\<open>getNodePerformance\<close> returns
  whatever \<^verbatim>\<open>dynamicRequire\<close> does, and returns \<^verbatim>\<open>undefined\<close> when it throws. Under
  Node.js the module then binds \<^verbatim>\<open>timestampInSeconds\<close> to the wall-clock source and
  \<^verbatim>\<open>usingPerformanceAPI\<close> is false. Loading the module never throws.
\<close>

theorem detection_never_throws:
  "(\<exists>pp. getNodePerformance env = Inr pp)
   \<and> (\<exists>pp. platformPerformance env t0 = Inr pp)
   \<and> (\<exists>m. time_module env t0 = Inr m)
   \<and> (\<forall>e. dynamicRequire env ''perf_hooks'' = Inl e \<longrightarrow>
          getNodePerformance env = Inr None
        \<and> (isNodeEnv env \<longrightarrow>
             (\<exists>m. time_module env t0 = Inr m
                \<and> \<not> usingPerformanceAPI m
                \<and> timestampInSeconds m = dateTimestampInSeconds m
                \<and> timestampInSeconds m = (\<lambda>t. Date_now env t / 1000))))"
proof (intro conjI allI impI)
  show "\<exists>pp. getNodePerformance env = Inr pp"
    by (simp add: getNodePerformance_cases split: sum.split)
next
  show "\<exists>pp. platformPerformance env t0 = Inr pp"
    by (rule platformPerformance_returns)
next
  obtain pp where "platformPerformance env t0 = Inr pp"
    using platformPerformance_returns by blast
  from time_module_loaded [OF this] show "\<exists>m. time_module env t0 = Inr m"
    by simp
next
  fix e assume "dynamicRequire env ''perf_hooks'' = Inl e"
  then show "getNodePerformance env = Inr None"
    by (simp add: getNodePerformance_cases)
next
  fix e assume thrown: "dynamicRequire env ''perf_hooks'' = Inl e" and node: "isNodeEnv env"
  have "platformPerformance env t0 = Inr None"
    using thrown node by (simp add: platformPerformance_def getNodePerformance_cases)
  from time_module_loaded [OF this]
  show "\<exists>m. time_module env t0 = Inr m
          \<and> \<not> usingPerformanceAPI m
          \<and> timestampInSeconds m = dateTimestampInSeconds m
          \<and> timestampInSeconds m = (\<lambda>t. Date_now env t / 1000)"
    by (simp add: timestampSource_def dateTimestampSource_def)
qed

theorem detection_never_throws_witness:
  "getNodePerformance old_node = Inr None
   \<and> (\<exists>m. time_module old_node 0 = Inr m
         \<and> \<not> usingPerformanceAPI m
         \<and> timestampInSeconds m 5 = 1700000000)"
proof -
  have a: "dynamicRequire old_node ''perf_hooks'' = Inl (Thrown ''Cannot find module'')"
    by (simp add: old_node_def no_perf_hooks_def)
  have b: "isNodeEnv old_node"
    by (simp add: old_node_def)
  have c: "Date_now old_node = (\<lambda>_. 1700000000000)"
    by (simp add: old_node_def)
  from detection_never_throws [of old_node 0] a b c
  show ?thesis by auto
qed


section \<open>The bound source\<close>

text \<open>
  C4. When the probe finds no high-resolution clock, the module loads with
  \<^verbatim>\<open>usingPerformanceAPI\<close> false, and \<^verbatim>\<open>timestampInSeconds\<close> is the function
  \<^verbatim>\<open>dateTimestampInSeconds\<close>: at every instant both return \<^verbatim>\<open>Date.now() / 1000\<close>.
\<close>

theorem no_clock_binds_date_source:
  assumes "platformPerformance env t0 = Inr None"
  shows "\<exists>m. time_module env t0 = Inr m
           \<and> \<not> usingPerformanceAPI m
           \<and> timestampInSeconds m = dateTimestampInSeconds m
           \<and> (\<forall>t. timestampInSeconds m t = Date_now env t / 1000
                  \<and> dateTimestampInSeconds m t = Date_now env t / 1000)"
  using time_module_loaded [OF assms]
  by (simp add: timestampSource_def dateTimestampSource_def)

theorem no_clock_binds_date_source_witness:
  "\<exists>m. time_module plain_browser 0 = Inr m
     \<and> \<not> usingPerformanceAPI m
     \<and> timestampInSeconds m = dateTimestampInSeconds m
     \<and> timestampInSeconds m 0 = 2"
proof -
  have a: "platformPerformance plain_browser 0 = Inr None"
    by (simp add: platformPerformance_def getBrowserPerformance_def plain_browser_def)
  have b: "Date_now plain_browser 0 = 2000"
    by (simp add: plain_browser_def)
  from no_clock_binds_date_source [OF a]
  obtain m where m: "time_module plain_browser 0 = Inr m" "\<not> usingPerformanceAPI m"
      "timestampInSeconds m = dateTimestampInSeconds m"
    and v: "\<forall>t. timestampInSeconds m t = Date_now plain_browser t / 1000
              \<and> dateTimestampInSeconds m t = Date_now plain_browser t / 1000"
    by blast
  from v have "timestampInSeconds m 0 = Date_now plain_browser 0 / 1000"
    by blast
  with b have "timestampInSeconds m 0 = 2"
    by simp
  with m show ?thesis by blast
qed

text \<open>
  C5. In every environment that exposes a high-resolution clock (under Node.js,
  \<^verbatim>\<open>perf_hooks\<close> can be required; elsewhere, the global \<^verbatim>\<open>performance\<close> has a \<^verbatim>\<open>now\<close>),
  the probe returns a handle on that clock, the module loads with
  \<^verbatim>\<open>usingPerformanceAPI\<close> true, \<^verbatim>\<open>timestampInSeconds\<close> is the handle's fixed origin
  plus the clock's reading, over 1000, and so it does not decrease from one call to
  another whenever the readings of the clock do not.
\<close>

theorem performance_clock_is_monotonic:
  assumes "isNodeEnv env \<and> dynamicRequire env ''perf_hooks'' = Inr h
             \<and> now (performance h) = clock
           \<or> \<not> isNodeEnv env \<and> window_performance (getGlobalObject env) = Some perf
             \<and> perf_now perf = Some clock"
  shows "\<exists>p m. platformPerformance env t0 = Inr (Some p)
           \<and> now p = clock
           \<and> time_module env t0 = Inr m
           \<and> usingPerformanceAPI m
           \<and> timestampInSeconds m = (\<lambda>t. (timeOrigin p + clock t) / 1000)
           \<and> (\<forall>t1 t2. clock t1 \<le> clock t2 \<longrightarrow>
                 timestampInSeconds m t1 \<le> timestampInSeconds m t2)"
proof -
  obtain p where pp: "platformPerformance env t0 = Inr (Some p)" and clock: "now p = clock"
  proof -
    from assms consider
        (node) "isNodeEnv env" "dynamicRequire env ''perf_hooks'' = Inr h"
          "now (performance h) = clock"
      | (browser) "\<not> isNodeEnv env" "window_performance (getGlobalObject env) = Some perf"
          "perf_now perf = Some clock"
      by blast
    then show thesis
    proof cases
      case node
      then have "platformPerformance env t0 = Inr (Some (performance h))"
        by (simp add: platformPerformance_def getNodePerformance_cases)
      then show thesis using node(3) by (rule that)
    next
      case browser
      let ?p = "\<lparr> now = clock, timeOrigin = Date_now env t0 - clock t0 \<rparr>"
      from browser have "platformPerformance env t0 = Inr (Some ?p)"
        by (simp add: platformPerformance_def getBrowserPerformance_def)
      moreover have "now ?p = clock"
        by simp
      ultimately show thesis by (rule that)
    qed
  qed
  from time_module_loaded [OF pp] pp clock show ?thesis
    by (simp add: timestampSource_def divide_right_mono)
qed

theorem performance_clock_is_monotonic_witness:
  "(\<exists>m. time_module new_node 0 = Inr m
      \<and> usingPerformanceAPI m
      \<and> timestampInSeconds m 1000 \<le> timestampInSeconds m 2000)
   \<and> (\<exists>m. time_module ticking_browser 0 = Inr m
      \<and> usingPerformanceAPI m
      \<and> timestampInSeconds m 1000 \<le> timestampInSeconds m 2000)"
proof -
  have a: "isNodeEnv new_node
             \<and> dynamicRequire new_node ''perf_hooks'' = Inr \<lparr> performance = node_performance \<rparr>
             \<and> now (performance \<lparr> performance = node_performance \<rparr>) = (\<lambda>t. real t)
           \<or> \<not> isNodeEnv new_node
             \<and> window_performance (getGlobalObject new_node) = Some ticking_performance
             \<and> perf_now ticking_performance = Some (\<lambda>t. real t)"
    by (simp add: new_node_def perf_hooks_present_def node_performance_def)
  have b: "isNodeEnv ticking_browser
             \<and> dynamicRequire ticking_browser ''perf_hooks''
                 = Inr \<lparr> performance = node_performance \<rparr>
             \<and> now (performance \<lparr> performance = node_performance \<rparr>) = (\<lambda>t. 5000 + real t)
           \<or> \<not> isNodeEnv ticking_browser
             \<and> window_performance (getGlobalObject ticking_browser) = Some ticking_performance
             \<and> perf_now ticking_performance = Some (\<lambda>t. 5000 + real t)"
    by (simp add: ticking_browser_def ticking_performance_def)
  have c: "real 1000 \<le> real 2000" and d: "5000 + real 1000 \<le> 5000 + real 2000"
    by simp_all
  from performance_clock_is_monotonic [OF a, of 0] c
  have "\<exists>m. time_module new_node 0 = Inr m
      \<and> usingPerformanceAPI m
      \<and> timestampInSeconds m 1000 \<le> timestampInSeconds m 2000"
    by blast
  moreover from performance_clock_is_monotonic [OF b, of 0] d
  have "\<exists>m. time_module ticking_browser 0 = Inr m
      \<and> usingPerformanceAPI m
      \<and> timestampInSeconds m 1000 \<le> timestampInSeconds m 2000"
    by blast
  ultimately show ?thesis by simp
qed


section \<open>Classification of the runtime\<close>

text \<open>
  C6. The probe first asks \<^verbatim>\<open>isNodeEnv()\<close> and then probes one API only. Under
  Node.js its result is that of \<^verbatim>\<open>getNodePerformance\<close> and does not depend on the
  global object or on \<^verbatim>\<open>Date.now\<close>: the handle of \<^verbatim>\<open>perf_hooks\<close>, and no clock when
  requiring it throws. Elsewhere its result is that of \<^verbatim>\<open>getBrowserPerformance\<close>
  and does not depend on \<^verbatim>\<open>dynamicRequire\<close>: no clock when the global
  \<^verbatim>\<open>performance\<close> is missing or has no \<^verbatim>\<open>now\<close>, a clock otherwise.
\<close>

theorem probe_only_kind_appropriate_api:
  "(isNodeEnv env \<longrightarrow>
      platformPerformance env t0 = getNodePerformance env
    \<and> (\<forall>g d. platformPerformance (env\<lparr>getGlobalObject := g, Date_now := d\<rparr>) t0
              = platformPerformance env t0)
    \<and> (\<forall>e. dynamicRequire env ''perf_hooks'' = Inl e \<longrightarrow>
            platformPerformance env t0 = Inr None)
    \<and> (\<forall>h. dynamicRequire env ''perf_hooks'' = Inr h \<longrightarrow>
            platformPerformance env t0 = Inr (Some (performance h))))
   \<and> (\<not> isNodeEnv env \<longrightarrow>
      platformPerformance env t0 = Inr (getBrowserPerformance env t0)
    \<and> (\<forall>r. platformPerformance (env\<lparr>dynamicRequire := r\<rparr>) t0
            = platformPerformance env t0)
    \<and> (window_performance (getGlobalObject env) = None \<longrightarrow>
          platformPerformance env t0 = Inr None)
    \<and> (\<forall>perf. window_performance (getGlobalObject env) = Some perf \<longrightarrow>
          (perf_now perf = None \<longrightarrow> platformPerformance env t0 = Inr None)
        \<and> (\<forall>f. perf_now perf = Some f \<longrightarrow>
               (\<exists>p. platformPerformance env t0 = Inr (Some p)))))"
proof (intro conjI impI)
  assume node: "isNodeEnv env"
  show "platformPerformance env t0 = getNodePerformance env"
    using node by (simp add: platformPerformance_def)
  show "\<forall>g d. platformPerformance (env\<lparr>getGlobalObject := g, Date_now := d\<rparr>) t0
              = platformPerformance env t0"
    using node by (simp add: platformPerformance_def getNodePerformance_cases)
  show "\<forall>e. dynamicRequire env ''perf_hooks'' = Inl e \<longrightarrow>
            platformPerformance env t0 = Inr None"
    using node by (simp add: platformPerformance_def getNodePerformance_cases)
  show "\<forall>h. dynamicRequire env ''perf_hooks'' = Inr h \<longrightarrow>
            platformPerformance env t0 = Inr (Some (performance h))"
    using node by (simp add: platformPerformance_def getNodePerformance_cases)
next
  assume browser: "\<not> isNodeEnv env"
  show "platformPerformance env t0 = Inr (getBrowserPerformance env t0)"
    using browser by (simp add: platformPerformance_def)
  show "\<forall>r. platformPerformance (env\<lparr>dynamicRequire := r\<rparr>) t0
            = platformPerformance env t0"
    using browser
    by (simp add: platformPerformance_def getBrowserPerformance_def split: option.split)
  show "window_performance (getGlobalObject env) = None \<Longrightarrow>
          platformPerformance env t0 = Inr None"
    using browser by (simp add: platformPerformance_def getBrowserPerformance_def)
  show "\<forall>perf. window_performance (getGlobalObject env) = Some perf \<longrightarrow>
          (perf_now perf = None \<longrightarrow> platformPerformance env t0 = Inr None)
        \<and> (\<forall>f. perf_now perf = Some f \<longrightarrow>
               (\<exists>p. platformPerformance env t0 = Inr (Some p)))"
    using browser by (simp add: platformPerformance_def getBrowserPerformance_def)
qed

theorem probe_only_kind_appropriate_api_witness:
  "platformPerformance old_node 0 = Inr None
   \<and> getBrowserPerformance old_node 0 \<noteq> None
   \<and> platformPerformance legacy_browser 0 = Inr None"
proof -
  have a: "isNodeEnv old_node"
    by (simp add: old_node_def)
  have b: "dynamicRequire old_node ''perf_hooks'' = Inl (Thrown ''Cannot find module'')"
    by (simp add: old_node_def no_perf_hooks_def)
  have c: "getBrowserPerformance old_node 0 \<noteq> None"
    by (simp add: getBrowserPerformance_def old_node_def mocked_performance_def)
  let ?perf = "\<lparr> perf_now = None, perf_timeOrigin = Some 0,
                  timing = Some \<lparr> navigationStart = Some 1600000000000 \<rparr> \<rparr>"
  have d: "\<not> isNodeEnv legacy_browser"
    by (simp add: legacy_browser_def)
  have e: "window_performance (getGlobalObject legacy_browser) = Some ?perf"
    by (simp add: legacy_browser_def)
  have f: "perf_now ?perf = None"
    by simp
  have "platformPerformance old_node 0 = Inr None"
    using probe_only_kind_appropriate_api [of old_node 0] a b by blast
  moreover have "platformPerformance legacy_browser 0 = Inr None"
    using probe_only_kind_appropriate_api [of legacy_browser 0] d e f by blast
  ultimately show ?thesis using c by simp
qed


section \<open>The exports\<close>

text \<open>
  C7. The module loads, and its \<^verbatim>\<open>dateTimestampInSeconds\<close> returns \<^verbatim>\<open>Date.now() / 1000\<close>
  at every call: over any sequence of calls the values returned are the raw
  readings over 1000, so a reading lower than an earlier one is returned as it is,
  lower than the earlier value.
\<close>

theorem dateTimestampInSeconds_is_raw_wall_clock:
  "\<exists>m. time_module env t0 = Inr m
     \<and> (\<forall>t. dateTimestampInSeconds m t = Date_now env t / 1000)
     \<and> (\<forall>ts. map (dateTimestampInSeconds m) ts = map (\<lambda>t. Date_now env t / 1000) ts)
     \<and> (\<forall>t1 t2. Date_now env t2 < Date_now env t1 \<longrightarrow>
           dateTimestampInSeconds m t2 < dateTimestampInSeconds m t1)"
proof -
  obtain pp where "platformPerformance env t0 = Inr pp"
    using platformPerformance_returns by blast
  from time_module_loaded [OF this] show ?thesis
    by (simp add: dateTimestampSource_def divide_strict_right_mono)
qed

theorem dateTimestampInSeconds_is_raw_wall_clock_witness:
  "\<exists>m. time_module plain_browser 0 = Inr m
     \<and> map (dateTimestampInSeconds m) [0, 1] = [2, 1]"
proof -
  obtain m where m: "time_module plain_browser 0 = Inr m"
    and v: "\<forall>ts. map (dateTimestampInSeconds m) ts
                  = map (\<lambda>t. Date_now plain_browser t / 1000) ts"
    using dateTimestampInSeconds_is_raw_wall_clock [of plain_browser 0] by blast
  from v have "map (dateTimestampInSeconds m) [0, 1]
                 = map (\<lambda>t. Date_now plain_browser t / 1000) [0, 1]"
    by blast
  also have "\<dots> = [2, 1]"
    by (simp add: plain_browser_def)
  finally have "time_module plain_browser 0 = Inr m
                  \<and> map (dateTimestampInSeconds m) [0, 1] = [2, 1]"
    using m by simp
  then show ?thesis ..
qed

text \<open>
  C8. The module loads, and its \<^verbatim>\<open>usingPerformanceAPI\<close> is true exactly when the probe
  returned a handle; it is true exactly when the probe returned a handle and
  \<^verbatim>\<open>timestampInSeconds\<close> is \<^verbatim>\<open>(timeOrigin + now()) / 1000\<close> on that handle, and when it
  is false \<^verbatim>\<open>timestampInSeconds\<close> is \<^verbatim>\<open>Date.now() / 1000\<close>.
\<close>

theorem usingPerformanceAPI_iff_performance_bound:
  "\<exists>m pp. platformPerformance env t0 = Inr pp
     \<and> time_module env t0 = Inr m
     \<and> (usingPerformanceAPI m \<longleftrightarrow> pp \<noteq> None)
     \<and> (usingPerformanceAPI m \<longleftrightarrow>
          (\<exists>p. pp = Some p
              \<and> timestampInSeconds m = (\<lambda>t. (timeOrigin p + now p t) / 1000)))
     \<and> (\<not> usingPerformanceAPI m \<longrightarrow>
          timestampInSeconds m = (\<lambda>t. Date_now env t / 1000))"
proof -
  obtain pp where pp: "platformPerformance env t0 = Inr pp"
    using platformPerformance_returns by blast
  from time_module_loaded [OF pp] pp show ?thesis
    by (cases pp) (simp_all add: timestampSource_def dateTimestampSource_def)
qed

theorem usingPerformanceAPI_iff_performance_bound_witness:
  "\<exists>m. time_module new_node 0 = Inr m
     \<and> usingPerformanceAPI m
     \<and> timestampInSeconds m 1000 = 1700000001"
proof -
  have a: "platformPerformance new_node 0 = Inr (Some node_performance)"
    by (simp add: platformPerformance_def getNodePerformance_cases new_node_def
        perf_hooks_present_def)
  obtain m pp where pp: "platformPerformance new_node 0 = Inr pp"
    and m: "time_module new_node 0 = Inr m"
    and u: "usingPerformanceAPI m \<longleftrightarrow> pp \<noteq> None"
    and b: "usingPerformanceAPI m \<longleftrightarrow>
          (\<exists>p. pp = Some p
              \<and> timestampInSeconds m = (\<lambda>t. (timeOrigin p + now p t) / 1000))"
    using usingPerformanceAPI_iff_performance_bound [of new_node 0] by blast
  from a pp have "pp = Some node_performance"
    by simp
  with u b have "usingPerformanceAPI m"
    and "timestampInSeconds m
           = (\<lambda>t. (timeOrigin node_performance + now node_performance t) / 1000)"
    by auto
  then have "usingPerformanceAPI m" and "timestampInSeconds m 1000 = 1700000001"
    by (simp_all add: node_performance_def)
  with m show ?thesis by blast
qed

text \<open>
  C9. The module loads, and its exports \<^verbatim>\<open>timestampWithMs\<close> and \<^verbatim>\<open>timestampInSeconds\<close>
  are the same function: the \<^verbatim>\<open>nowSeconds\<close> of the one \<^verbatim>\<open>timestampSource\<close>.
\<close>

theorem timestampWithMs_is_timestampInSeconds:
  "\<exists>m pp. platformPerformance env t0 = Inr pp
     \<and> time_module env t0 = Inr m
     \<and> timestampInSeconds m = nowSeconds (timestampSource env pp)
     \<and> timestampWithMs m = nowSeconds (timestampSource env pp)
     \<and> timestampWithMs m = timestampInSeconds m
     \<and> (\<forall>t. timestampWithMs m t = timestampInSeconds m t)"
proof -
  obtain pp where pp: "platformPerformance env t0 = Inr pp"
    using platformPerformance_returns by blast
  from time_module_loaded [OF pp] pp show ?thesis
    by simp
qed

theorem timestampWithMs_is_timestampInSeconds_witness:
  "\<exists>m. time_module mocked_browser 0 = Inr m
     \<and> timestampWithMs m = timestampInSeconds m"
  using timestampWithMs_is_timestampInSeconds [of mocked_browser 0] by blast

end
